theory Spec2Isabelle
  imports Main "HOL-Library.AList" "HOL-Library.Multiset"
begin

section \<open>Python values and string formatting\<close>

text \<open>
  The tools of \<^verbatim>\<open>backend/search_tools.py\<close> receive their arguments from the language
  model as keyword arguments, so an argument is a dynamically typed value. Truthiness
  (\<^verbatim>\<open>if x:\<close>) and f-string formatting (\<^verbatim>\<open>f"{x}"\<close>) are written out.
\<close>

datatype pyval = PNone | PBool bool | PInt int | PStr string

fun truthy :: "pyval \<Rightarrow> bool" where
  "truthy PNone = False"
| "truthy (PBool b) = b"
| "truthy (PInt i) = (i \<noteq> 0)"
| "truthy (PStr s) = (s \<noteq> [])"

abbreviation (input) apostrophe :: char where
  "apostrophe \<equiv> CHR 0x27"

abbreviation (input) newline :: char where
  "newline \<equiv> CHR 0x0A"

definition digit_char :: "nat \<Rightarrow> char" where
  "digit_char d = ''0123456789'' ! d"

function str_nat :: "nat \<Rightarrow> string" where
  "str_nat n = (if n < 10 then [digit_char n] else str_nat (n div 10) @ [digit_char (n mod 10)])"
  by pat_completeness auto
termination
  by (relation "measure id") auto

declare str_nat.simps [simp del]

text \<open>\<^verbatim>\<open>str(i)\<close> for a Python integer: decimal digits, with a minus sign when negative.\<close>

definition str_int :: "int \<Rightarrow> string" where
  "str_int i = (if i < 0 then CHR ''-'' # str_nat (nat (- i)) else str_nat (nat i))"

fun py_str :: "pyval \<Rightarrow> string" where
  "py_str PNone = ''None''"
| "py_str (PBool b) = (if b then ''True'' else ''False'')"
| "py_str (PInt i) = str_int i"
| "py_str (PStr s) = s"

text \<open>
  An optional string under a truthiness test: \<^verbatim>\<open>v if v else None\<close>. The result is
  \<open>Some s\<close> exactly when \<open>v\<close> is a non-empty string, so that \<^verbatim>\<open>if v: ... v ...\<close>
  is a case distinction on it.
\<close>

definition if_truthy :: "string option \<Rightarrow> string option" where
  "if_truthy v = (case v of None \<Rightarrow> None | Some s \<Rightarrow> if s \<noteq> [] then Some s else None)"

text \<open>\<^verbatim>\<open>sep.join(parts)\<close>.\<close>

fun join :: "string \<Rightarrow> string list \<Rightarrow> string" where
  "join sep [] = []"
| "join sep [x] = x"
| "join sep (x # y # ys) = x @ sep @ join sep (y # ys)"

text \<open>
  Exceptions are values. \<^verbatim>\<open>ValueError\<close> and \<^verbatim>\<open>TypeError\<close> are the classes the
  module and the call protocol raise themselves; \<open>Exception\<close> stands for any other
  exception (for one raised by the vector store), carrying its message.
\<close>

datatype exn = ValueError string | TypeError string | Exception string

fun exn_str :: "exn \<Rightarrow> string" where
  "exn_str (ValueError m) = m"
| "exn_str (TypeError m) = m"
| "exn_str (Exception m) = m"

section \<open>Data model\<close>

text \<open>
  The metadata dictionary of one retrieved chunk, with the keys \<^verbatim>\<open>course_title\<close>,
  \<^verbatim>\<open>lesson_number\<close> and \<^verbatim>\<open>lesson_link\<close> that \<^verbatim>\<open>_format_results\<close> reads. The
  values have the types the ingestion side writes (a string title, an integer lesson
  number, a string link); \<open>None\<close> is a missing key, and for \<open>lesson_number\<close> and
  \<open>lesson_link\<close> also a key bound to \<^verbatim>\<open>None\<close>, which \<^verbatim>\<open>dict.get\<close> does not
  tell apart.
\<close>

record chunk_meta =
  meta_course_title :: "string option"
  meta_lesson_number :: "int option"
  meta_lesson_link :: "string option"

text \<open>
  \<^verbatim>\<open>SearchResults\<close> is imported from \<^verbatim>\<open>vector_store\<close>. The fields the tools read are
  the parallel sequences of documents and metadata and the optional error string; the
  distances are never read here.
\<close>

record SearchResults =
  documents :: "string list"
  metadata :: "chunk_meta list"
  error :: "string option"

text \<open>
  Modelled from the spec: \<^verbatim>\<open>SearchResults.is_empty\<close> lives in \<^verbatim>\<open>vector_store.py\<close>,
  which is not among the sources. The specification speaks of "empty results" and of a
  search "returning no documents": the result is empty when it holds no document.
\<close>

definition is_empty :: "SearchResults \<Rightarrow> bool" where
  "is_empty results = (documents results = [])"

text \<open>A source object \<^verbatim>\<open>{"text": ..., "link": ...}\<close> recorded for the user interface.\<close>

record source =
  source_text :: string
  source_link :: "string option"

text \<open>
  One lesson object of a course's \<^verbatim>\<open>lessons_json\<close> list, with its keys
  \<^verbatim>\<open>lesson_number\<close> (the field \<open>number\<close>) and \<^verbatim>\<open>lesson_title\<close>; \<open>None\<close> is a
  missing key.
\<close>

record lesson =
  number :: "int option"
  lesson_title :: "string option"

text \<open>
  The catalog metadata of a course. \<^verbatim>\<open>lessons_json\<close> is a JSON string that the tool
  hands to the library function \<^verbatim>\<open>json.loads\<close>; the field holds what that call
  yields on the stored string: the exception it raises or the decoded list of lessons.
  \<open>None\<close> is a missing key, for which the code decodes the default \<^verbatim>\<open>"[]"\<close>.
\<close>

record course_meta =
  title :: "string option"
  course_link :: "string option"
  lessons_json :: "(exn + lesson list) option"

text \<open>
  \<^verbatim>\<open>VectorStore\<close> is a collaborator outside this module; the tools call three of its
  operations, each of which returns or raises.
  \<^item> \<open>search\<close>: the unified search with the query and the two optional filters;
  \<^item> \<open>resolve_course_name\<close>: \<^verbatim>\<open>_resolve_course_name\<close>, the canonical title or
    \<^verbatim>\<open>None\<close>;
  \<^item> \<open>course_catalog_get\<close>: \<^verbatim>\<open>course_catalog.get(ids=...)\<close>, reduced to its
    \<^verbatim>\<open>"metadatas"\<close> entry: \<open>None\<close> when the result is empty or has no such entry,
    else the list of metadata dictionaries.
\<close>

record vector_store =
  search :: "pyval \<Rightarrow> pyval \<Rightarrow> pyval \<Rightarrow> exn + SearchResults"
  resolve_course_name :: "pyval \<Rightarrow> exn + string option"
  course_catalog_get :: "string list \<Rightarrow> exn + course_meta list option"

section \<open>CourseSearchTool\<close>

record CourseSearchTool =
  store :: vector_store
  last_sources :: "source list"

definition CourseSearchTool_init :: "vector_store \<Rightarrow> CourseSearchTool" where
  "CourseSearchTool_init vector_store = \<lparr>store = vector_store, last_sources = []\<rparr>"

text \<open>
  The body of the loop of \<^verbatim>\<open>_format_results\<close> over
  \<^verbatim>\<open>zip(results.documents, results.metadata)\<close>, with its two accumulators.
\<close>

fun format_loop ::
  "(string \<times> chunk_meta) list \<Rightarrow> string list \<Rightarrow> source list \<Rightarrow> string list \<times> source list" where
  "format_loop [] formatted sources = (formatted, sources)"
| "format_loop ((doc, meta) # rest) formatted sources =
     (let course_title = (case meta_course_title meta of None \<Rightarrow> ''unknown'' | Some t \<Rightarrow> t);
          lesson_num = meta_lesson_number meta;
          lesson_link = meta_lesson_link meta;
          header = ''['' @ course_title;
          header = (case lesson_num of None \<Rightarrow> header
                    | Some n \<Rightarrow> header @ '' - Lesson '' @ str_int n);
          header = header @ '']'';
          source_text = course_title;
          source_text = (case lesson_num of None \<Rightarrow> source_text
                         | Some n \<Rightarrow> source_text @ '' - Lesson '' @ str_int n);
          source_obj = \<lparr>source_text = source_text,
                        source_link = if_truthy lesson_link\<rparr>
      in format_loop rest (formatted @ [header @ [newline] @ doc]) (sources @ [source_obj]))"

text \<open>
  \<^verbatim>\<open>_format_results\<close>: the loop, the assignment to \<^verbatim>\<open>self.last_sources\<close> and the
  joined text. The debugging output written with \<^verbatim>\<open>print\<close> is not part of the model.
\<close>

definition format_results :: "CourseSearchTool \<Rightarrow> SearchResults \<Rightarrow> string \<times> CourseSearchTool" where
  "format_results self results =
     (let (formatted, sources) = format_loop (zip (documents results) (metadata results)) [] []
      in (join [newline, newline] formatted, self\<lparr>last_sources := sources\<rparr>))"

text \<open>
  \<^verbatim>\<open>CourseSearchTool.execute\<close>. The result is what the call returns or raises,
  together with the tool object after the call.
\<close>

definition CourseSearchTool_execute ::
  "CourseSearchTool \<Rightarrow> pyval \<Rightarrow> pyval \<Rightarrow> pyval \<Rightarrow> (exn + string) \<times> CourseSearchTool" where
  "CourseSearchTool_execute self query course_name lesson_number =
     (case search (store self) query course_name lesson_number of
        Inl e \<Rightarrow> (Inl e, self)
      | Inr results \<Rightarrow>
          (case if_truthy (error results) of
             Some err \<Rightarrow> (Inr err, self)
           | None \<Rightarrow>
               if is_empty results then
                 (let filter_info = [];
                      filter_info = (if truthy course_name
                                     then filter_info @ '' in course '' @ [apostrophe]
                                            @ py_str course_name @ [apostrophe]
                                     else filter_info);
                      filter_info = (if truthy lesson_number
                                     then filter_info @ '' in lesson '' @ py_str lesson_number
                                     else filter_info)
                  in (Inr (''No relevant content found'' @ filter_info @ ''.''), self))
               else (let (s, self') = format_results self results in (Inr s, self'))))"

section \<open>CourseOutlineTool\<close>

record CourseOutlineTool =
  outline_store :: vector_store

text \<open>
  The loop over the sorted lessons, appending one line per lesson to
  \<^verbatim>\<open>outline_parts\<close>. A lesson without a number is shown as \<^verbatim>\<open>N/A\<close>, one
  without a title as \<^verbatim>\<open>Untitled\<close>.
\<close>

fun lesson_loop :: "lesson list \<Rightarrow> string list \<Rightarrow> string list" where
  "lesson_loop [] outline_parts = outline_parts"
| "lesson_loop (lesson # rest) outline_parts =
     (let lesson_num = (case number lesson of None \<Rightarrow> ''N/A'' | Some n \<Rightarrow> str_int n);
          lesson_title = (case lesson_title lesson of None \<Rightarrow> ''Untitled'' | Some t \<Rightarrow> t)
      in lesson_loop rest
           (outline_parts @ [''  Lesson '' @ lesson_num @ '': '' @ lesson_title]))"

text \<open>
  The sort key \<^verbatim>\<open>lambda x: x.get("lesson_number", 0)\<close>. Python's \<^verbatim>\<open>sorted\<close> is
  stable, as is \<^const>\<open>sort_key\<close>.
\<close>

definition lesson_key :: "lesson \<Rightarrow> int" where
  "lesson_key x = (case number x of None \<Rightarrow> 0 | Some n \<Rightarrow> n)"

text \<open>
  \<^verbatim>\<open>json.loads(metadata.get("lessons_json", "[]"))\<close>: the default \<^verbatim>\<open>"[]"\<close> decodes
  to the empty list.
\<close>

definition json_loads_lessons :: "course_meta \<Rightarrow> exn + lesson list" where
  "json_loads_lessons entry = (case lessons_json entry of None \<Rightarrow> Inr [] | Some r \<Rightarrow> r)"

text \<open>
  The body of the \<^verbatim>\<open>try\<close> block of \<^verbatim>\<open>CourseOutlineTool.execute\<close>: \<open>Inl\<close> is an
  exception raised inside the block, \<open>Inr\<close> a value it returns.
\<close>

definition outline_try :: "CourseOutlineTool \<Rightarrow> string \<Rightarrow> exn + string" where
  "outline_try self resolved_course_title =
     (case course_catalog_get (outline_store self) [resolved_course_title] of
        Inl e \<Rightarrow> Inl e
      | Inr None \<Rightarrow>
          Inr (''No course metadata found for '' @ [apostrophe] @ resolved_course_title
                 @ [apostrophe])
      | Inr (Some []) \<Rightarrow>
          Inr (''No course metadata found for '' @ [apostrophe] @ resolved_course_title
                 @ [apostrophe])
      | Inr (Some (first # _)) \<Rightarrow>
          (let metadata = first;
               course_title = (case title metadata of None \<Rightarrow> ''Unknown Course'' | Some t \<Rightarrow> t);
               course_link = course_link metadata
           in case json_loads_lessons metadata of
                Inl e \<Rightarrow> Inl e
              | Inr lessons \<Rightarrow>
                  (let outline_parts = [];
                       outline_parts = outline_parts @ [''Course: '' @ course_title];
                       outline_parts =
                         (case if_truthy course_link of
                            Some l \<Rightarrow> outline_parts @ [''Course Link: '' @ l]
                          | None \<Rightarrow> outline_parts);
                       outline_parts =
                         (if lessons \<noteq> [] then
                            lesson_loop (sort_key lesson_key lessons)
                              (outline_parts @
                                 [[newline] @ ''Lessons ('' @ str_nat (length lessons)
                                    @ '' total):''])
                          else outline_parts @ [[newline] @ ''No lessons found for this course.''])
                   in Inr (join [newline] outline_parts))))"

definition CourseOutlineTool_execute :: "CourseOutlineTool \<Rightarrow> pyval \<Rightarrow> exn + string" where
  "CourseOutlineTool_execute self course_name =
     (case resolve_course_name (outline_store self) course_name of
        Inl e \<Rightarrow> Inl e
      | Inr resolved \<Rightarrow>
          (case if_truthy resolved of
             None \<Rightarrow>
               Inr (''No course found matching '' @ [apostrophe] @ py_str course_name
                      @ [apostrophe])
           | Some resolved_course_title \<Rightarrow>
               (case outline_try self resolved_course_title of
                  Inl e \<Rightarrow> Inr (''Error retrieving course outline: '' @ exn_str e)
                | Inr s \<Rightarrow> Inr s)))"

section \<open>Tools and their definitions\<close>

text \<open>
  A tool definition is the dictionary handed to the model. Its entries are kept as a
  record; \<open>name\<close> is what \<^verbatim>\<open>tool_def.get("name")\<close> yields, \<open>None\<close> when the key is
  missing. A schema property is a triple of its name, type and description.
\<close>

record input_schema =
  schema_type :: string
  properties :: "(string \<times> string \<times> string) list"
  required :: "string list"

record tool_definition =
  name :: "string option"
  description :: "string option"
  input_schema :: "input_schema option"

text \<open>Keyword arguments \<^verbatim>\<open>**kwargs\<close>, in the order given.\<close>

type_synonym kwargs = "(string \<times> pyval) list"

text \<open>
  Besides the two tools of the module, the manager accepts any object that implements
  the \<^verbatim>\<open>Tool\<close> interface (the tests register such objects). Such a tool is given by
  its definition, its \<^verbatim>\<open>execute\<close> and its \<^verbatim>\<open>last_sources\<close> attribute, \<open>None\<close> when
  it has none.
\<close>

record other_tool =
  other_definition :: tool_definition
  other_execute :: "kwargs \<Rightarrow> exn + string"
  other_last_sources :: "source list option"

datatype tool =
  SearchTool CourseSearchTool
| OutlineTool CourseOutlineTool
| OtherTool other_tool

definition CourseSearchTool_definition :: tool_definition where
  "CourseSearchTool_definition =
     \<lparr>name = Some ''search_course_content'',
      description =
        Some ''Search course materials with smart course name matching and lesson filtering'',
      input_schema = Some
        \<lparr>schema_type = ''object'',
         properties =
           [(''query'', ''string'', ''What to search for in the course content''),
            (''course_name'', ''string'',
             ''Course title (partial matches work, e.g. '' @ [apostrophe] @ ''MCP'' @ [apostrophe]
               @ '', '' @ [apostrophe] @ ''Introduction'' @ [apostrophe] @ '')''),
            (''lesson_number'', ''integer'',
             ''Specific lesson number to search within (e.g. 1, 2, 3)'')],
         required = [''query'']\<rparr>\<rparr>"

definition CourseOutlineTool_definition :: tool_definition where
  "CourseOutlineTool_definition =
     \<lparr>name = Some ''get_course_outline'',
      description =
        Some ''Get complete course outline with lesson structure for a specific course'',
      input_schema = Some
        \<lparr>schema_type = ''object'',
         properties =
           [(''course_name'', ''string'',
             ''Course title or partial course name to get outline for'')],
         required = [''course_name'']\<rparr>\<rparr>"

fun get_tool_definition :: "tool \<Rightarrow> tool_definition" where
  "get_tool_definition (SearchTool t) = CourseSearchTool_definition"
| "get_tool_definition (OutlineTool t) = CourseOutlineTool_definition"
| "get_tool_definition (OtherTool t) = other_definition t"

text \<open>
  \<^verbatim>\<open>tool.execute(**kwargs)\<close>: the keyword arguments are bound to the parameters of
  the tool's \<^verbatim>\<open>execute\<close>. A keyword that is no parameter, and then a required
  parameter without a keyword, raises \<^verbatim>\<open>TypeError\<close>; an optional parameter without a
  keyword is \<^verbatim>\<open>None\<close>. The keys of the keyword arguments are distinct. The messages
  are those of the interpreter, which names the method by its qualified name.
\<close>

definition unexpected_keyword :: "string list \<Rightarrow> kwargs \<Rightarrow> string option" where
  "unexpected_keyword params kw = find (\<lambda>k. k \<notin> set params) (map fst kw)"

definition kw_default :: "kwargs \<Rightarrow> string \<Rightarrow> pyval" where
  "kw_default kw k = (case map_of kw k of None \<Rightarrow> PNone | Some v \<Rightarrow> v)"

fun tool_execute :: "tool \<Rightarrow> kwargs \<Rightarrow> (exn + string) \<times> tool" where
  "tool_execute (SearchTool t) kw =
     (case unexpected_keyword [''query'', ''course_name'', ''lesson_number''] kw of
        Some k \<Rightarrow>
          (Inl (TypeError (''CourseSearchTool.execute() got an unexpected keyword argument ''
                  @ [apostrophe] @ k @ [apostrophe])), SearchTool t)
      | None \<Rightarrow>
          (case map_of kw ''query'' of
             None \<Rightarrow>
               (Inl (TypeError (''CourseSearchTool.execute() missing 1 required positional ''
                       @ ''argument: '' @ [apostrophe] @ ''query'' @ [apostrophe])), SearchTool t)
           | Some query \<Rightarrow>
               (let (r, t') = CourseSearchTool_execute t query (kw_default kw ''course_name'')
                                (kw_default kw ''lesson_number'')
                in (r, SearchTool t'))))"
| "tool_execute (OutlineTool t) kw =
     (case unexpected_keyword [''course_name''] kw of
        Some k \<Rightarrow>
          (Inl (TypeError (''CourseOutlineTool.execute() got an unexpected keyword argument ''
                  @ [apostrophe] @ k @ [apostrophe])), OutlineTool t)
      | None \<Rightarrow>
          (case map_of kw ''course_name'' of
             None \<Rightarrow>
               (Inl (TypeError (''CourseOutlineTool.execute() missing 1 required positional ''
                       @ ''argument: '' @ [apostrophe] @ ''course_name'' @ [apostrophe])),
                OutlineTool t)
           | Some course_name \<Rightarrow> (CourseOutlineTool_execute t course_name, OutlineTool t)))"
| "tool_execute (OtherTool t) kw = (other_execute t kw, OtherTool t)"

text \<open>
  The attribute \<^verbatim>\<open>last_sources\<close> of a tool: \<open>None\<close> when \<^verbatim>\<open>hasattr\<close> is false.
  Only the search tool of this module has it.
\<close>

fun tool_last_sources :: "tool \<Rightarrow> source list option" where
  "tool_last_sources (SearchTool t) = Some (last_sources t)"
| "tool_last_sources (OutlineTool t) = None"
| "tool_last_sources (OtherTool t) = other_last_sources t"

text \<open>The assignment \<^verbatim>\<open>tool.last_sources = []\<close> under \<^verbatim>\<open>hasattr\<close>.\<close>

fun clear_last_sources :: "tool \<Rightarrow> tool" where
  "clear_last_sources (SearchTool t) = SearchTool (t\<lparr>last_sources := []\<rparr>)"
| "clear_last_sources (OutlineTool t) = OutlineTool t"
| "clear_last_sources (OtherTool t) =
     (case other_last_sources t of
        None \<Rightarrow> OtherTool t
      | Some _ \<Rightarrow> OtherTool (t\<lparr>other_last_sources := Some []\<rparr>))"

section \<open>ToolManager\<close>

text \<open>
  The registry \<^verbatim>\<open>self.tools\<close> is a Python dictionary: its keys are distinct and it
  keeps insertion order, which \<^verbatim>\<open>values()\<close> follows. It is an association list;
  \<^const>\<open>AList.update\<close> is the assignment \<^verbatim>\<open>d[k] = v\<close> (an existing key keeps its place,
  a new one goes to the end). The registry holds the tool objects themselves, so a
  tool changed by a call is stored back under its name.
\<close>

record ToolManager =
  tools :: "(string \<times> tool) list"

definition ToolManager_init :: ToolManager where
  "ToolManager_init = \<lparr>tools = []\<rparr>"

definition register_tool :: "ToolManager \<Rightarrow> tool \<Rightarrow> exn + ToolManager" where
  "register_tool self tool =
     (let tool_def = get_tool_definition tool;
          tool_name = name tool_def
      in case if_truthy tool_name of
           None \<Rightarrow> Inl (ValueError (''Tool must have a '' @ [apostrophe] @ ''name''
                                      @ [apostrophe] @ '' in its definition''))
         | Some n \<Rightarrow> Inr (self\<lparr>tools := AList.update n tool (tools self)\<rparr>))"

definition get_tool_definitions :: "ToolManager \<Rightarrow> tool_definition list" where
  "get_tool_definitions self = map (\<lambda>(k, tool). get_tool_definition tool) (tools self)"

definition execute_tool :: "ToolManager \<Rightarrow> string \<Rightarrow> kwargs \<Rightarrow> (exn + string) \<times> ToolManager" where
  "execute_tool self tool_name kw =
     (case map_of (tools self) tool_name of
        None \<Rightarrow>
          (Inr (''Tool '' @ [apostrophe] @ tool_name @ [apostrophe] @ '' not found''), self)
      | Some tool \<Rightarrow>
          (let (r, tool') = tool_execute tool kw
           in (r, self\<lparr>tools := AList.update tool_name tool' (tools self)\<rparr>)))"

text \<open>The loop of \<^verbatim>\<open>get_last_sources\<close> over \<^verbatim>\<open>self.tools.values()\<close>.\<close>

fun last_sources_loop :: "tool list \<Rightarrow> source list" where
  "last_sources_loop [] = []"
| "last_sources_loop (tool # rest) =
     (case tool_last_sources tool of
        None \<Rightarrow> last_sources_loop rest
      | Some srcs \<Rightarrow> if srcs \<noteq> [] then srcs else last_sources_loop rest)"

definition get_last_sources :: "ToolManager \<Rightarrow> source list" where
  "get_last_sources self = last_sources_loop (map snd (tools self))"

definition reset_sources :: "ToolManager \<Rightarrow> ToolManager" where
  "reset_sources self = self\<lparr>tools := map (\<lambda>(k, tool). (k, clear_last_sources tool)) (tools self)\<rparr>"

section \<open>The stated behaviour\<close>

text \<open>
  What the specification says a hit looks like, written from its words and compared
  below with the loop of the code. The header of a hit is \<^verbatim>\<open>[<course_title>]\<close>, with
  \<^verbatim>\<open> - Lesson <N>\<close> after the title exactly when the metadata has a lesson number; a
  block is the header, a newline and the document text. A missing title reads
  \<^verbatim>\<open>unknown\<close>.
\<close>

definition hit_label :: "chunk_meta \<Rightarrow> string" where
  "hit_label meta =
     (case meta_course_title meta of None \<Rightarrow> ''unknown'' | Some t \<Rightarrow> t)
       @ (case meta_lesson_number meta of None \<Rightarrow> [] | Some n \<Rightarrow> '' - Lesson '' @ str_int n)"

definition hit_block :: "string \<times> chunk_meta \<Rightarrow> string" where
  "hit_block hit = ''['' @ hit_label (snd hit) @ '']'' @ [newline] @ fst hit"

text \<open>
  The source object derived from the metadata of a hit: the label as text, and the
  lesson link when there is a non-empty one.
\<close>

definition source_of :: "chunk_meta \<Rightarrow> source" where
  "source_of meta =
     \<lparr>source_text = hit_label meta, source_link = if_truthy (meta_lesson_link meta)\<rparr>"

text \<open>One line of the outline: \<^verbatim>\<open>Lesson <number>: <title>\<close>, indented by two blanks.\<close>

definition lesson_line :: "lesson \<Rightarrow> string" where
  "lesson_line l =
     ''  Lesson '' @ (case number l of None \<Rightarrow> ''N/A'' | Some n \<Rightarrow> str_int n) @ '': ''
       @ (case lesson_title l of None \<Rightarrow> ''Untitled'' | Some t \<Rightarrow> t)"

text \<open>A tool holds sources when it has the attribute and the list is not empty.\<close>

definition holds_sources :: "tool \<Rightarrow> bool" where
  "holds_sources tool =
     (case tool_last_sources tool of None \<Rightarrow> False | Some srcs \<Rightarrow> srcs \<noteq> [])"

text \<open>
  The registry of a manager is well formed when its keys are distinct, as the keys of a
  dictionary are, and every tool is stored under the name of its own definition, as
  \<^const>\<open>register_tool\<close> stores it.
\<close>

definition registry_ok :: "ToolManager \<Rightarrow> bool" where
  "registry_ok self =
     (distinct (map fst (tools self))
      \<and> list_all (\<lambda>(k, tool). name (get_tool_definition tool) = Some k) (tools self))"

section \<open>Stores and tools for the examples\<close>

text \<open>A store that answers every call in the same way.\<close>

definition fixed_store ::
  "exn + SearchResults \<Rightarrow> exn + string option \<Rightarrow> exn + course_meta list option \<Rightarrow> vector_store" where
  "fixed_store found resolved catalog =
     \<lparr>search = (\<lambda>query course_name lesson_number. found),
      resolve_course_name = (\<lambda>course_name. resolved),
      course_catalog_get = (\<lambda>ids. catalog)\<rparr>"

text \<open>A store whose search returns the given results; it knows no course.\<close>

definition store_returning :: "SearchResults \<Rightarrow> vector_store" where
  "store_returning results = fixed_store (Inr results) (Inr None) (Inr None)"

text \<open>
  A tool as the tests register it: a definition with the given name, an
  \<^verbatim>\<open>execute\<close> that returns the given string, and the given \<^verbatim>\<open>last_sources\<close>.
\<close>

definition stub_tool :: "string option \<Rightarrow> string \<Rightarrow> source list option \<Rightarrow> tool" where
  "stub_tool tool_name result srcs =
     OtherTool \<lparr>other_definition = \<lparr>name = tool_name, description = None, input_schema = None\<rparr>,
                other_execute = (\<lambda>kw. Inr result),
                other_last_sources = srcs\<rparr>"

section \<open>Properties of the search tool\<close>

lemma format_loop_eq:
  "format_loop hits formatted sources =
     (formatted @ map hit_block hits, sources @ map source_of (map snd hits))"
proof (induction hits arbitrary: formatted sources)
  case Nil
  show ?case by simp
next
  case (Cons hit hits)
  obtain doc meta where hit: "hit = (doc, meta)" by (cases hit)
  show ?case
    unfolding hit
    by (simp add: Cons.IH Let_def hit_block_def hit_label_def source_of_def
        split: option.split)
qed

lemma format_results_eq:
  "format_results self results =
     (join [newline, newline] (map hit_block (zip (documents results) (metadata results))),
      self\<lparr>last_sources := map source_of (take (length (documents results)) (metadata results))\<rparr>)"
proof -
  have "map snd (zip (documents results) (metadata results))
        = take (length (documents results)) (metadata results)"
    by (simp add: map_snd_zip_take min_def)
  then show ?thesis
    by (simp add: format_results_def format_loop_eq del: map_map)
qed

lemma execute_hits:
  assumes "search (store self) query course_name lesson_number = Inr results"
    and "error results = None"
    and "documents results \<noteq> []"
  shows "CourseSearchTool_execute self query course_name lesson_number =
     (Inr (join [newline, newline] (map hit_block (zip (documents results) (metadata results)))),
      self\<lparr>last_sources := map source_of (take (length (documents results)) (metadata results))\<rparr>)"
  using assms
  by (simp add: CourseSearchTool_execute_def if_truthy_def is_empty_def format_results_eq)




text \<open>
  C2, as amended. For a non-empty, error-free result, \<open>execute\<close> records one source per
  pair of \<^verbatim>\<open>zip(documents, metadata)\<close>: as many sources as the shorter of the two
  sequences has entries, the \<open>i\<close>-th derived from the \<open>i\<close>-th metadata entry.
\<close>

theorem execute_sources_per_pair:
  assumes "search (store self) query course_name lesson_number = Inr results"
    and "error results = None"
    and "documents results \<noteq> []"
  shows "length (last_sources (snd (CourseSearchTool_execute self query course_name lesson_number)))
           = min (length (documents results)) (length (metadata results))
       \<and> (\<forall>i < min (length (documents results)) (length (metadata results)).
            last_sources (snd (CourseSearchTool_execute self query course_name lesson_number)) ! i
              = source_of (metadata results ! i))"
  by (simp add: execute_hits [OF assms])

theorem execute_sources_per_pair_witness:
  "last_sources (snd (CourseSearchTool_execute
     \<lparr>store = store_returning
        \<lparr>documents = [''Test content'', ''More''],
         metadata = [\<lparr>meta_course_title = Some ''Test Course'', meta_lesson_number = Some 1,
                      meta_lesson_link = Some ''http://test.com/lesson1''\<rparr>,
                     \<lparr>meta_course_title = Some ''Other'', meta_lesson_number = None,
                      meta_lesson_link = None\<rparr>],
         error = None\<rparr>,
      last_sources = []\<rparr> (PStr ''q'') PNone PNone)) ! 0
   = \<lparr>source_text = ''Test Course - Lesson 1'', source_link = Some ''http://test.com/lesson1''\<rparr>"
  using execute_sources_per_pair [of
      "\<lparr>store = store_returning
        \<lparr>documents = [''Test content'', ''More''],
         metadata = [\<lparr>meta_course_title = Some ''Test Course'', meta_lesson_number = Some 1,
                      meta_lesson_link = Some ''http://test.com/lesson1''\<rparr>,
                     \<lparr>meta_course_title = Some ''Other'', meta_lesson_number = None,
                      meta_lesson_link = None\<rparr>],
         error = None\<rparr>,
      last_sources = []\<rparr>" "PStr ''q''" PNone PNone
      "\<lparr>documents = [''Test content'', ''More''],
         metadata = [\<lparr>meta_course_title = Some ''Test Course'', meta_lesson_number = Some 1,
                      meta_lesson_link = Some ''http://test.com/lesson1''\<rparr>,
                     \<lparr>meta_course_title = Some ''Other'', meta_lesson_number = None,
                      meta_lesson_link = None\<rparr>],
         error = None\<rparr>"]
  by (simp add: store_returning_def fixed_store_def source_of_def hit_label_def if_truthy_def
      str_int_def str_nat.simps digit_char_def)

text \<open>
  C2 as stated fails when there are more documents than metadata entries: two
  documents with one metadata entry leave one source.
\<close>

theorem execute_sources_counterexample:
  "length (documents \<lparr>documents = [''a'', ''b''],
                      metadata = [\<lparr>meta_course_title = Some ''T'', meta_lesson_number = None,
                                   meta_lesson_link = None\<rparr>],
                      error = None\<rparr>) = 2
   \<and> length (last_sources (snd (CourseSearchTool_execute
        \<lparr>store = store_returning
           \<lparr>documents = [''a'', ''b''],
            metadata = [\<lparr>meta_course_title = Some ''T'', meta_lesson_number = None,
                         meta_lesson_link = None\<rparr>],
            error = None\<rparr>,
         last_sources = []\<rparr> (PStr ''q'') PNone PNone))) = 1"
  by (simp add: CourseSearchTool_execute_def store_returning_def fixed_store_def
      if_truthy_def is_empty_def format_results_def Let_def)

text \<open>
  C3. For a non-empty, error-free result, \<open>execute\<close> returns the blocks of the hits,
  one per pair of document and metadata, joined by a blank line.
\<close>

theorem execute_formats_hits:
  assumes "search (store self) query course_name lesson_number = Inr results"
    and "error results = None"
    and "documents results \<noteq> []"
  shows "fst (CourseSearchTool_execute self query course_name lesson_number)
           = Inr (join [newline, newline]
                    (map hit_block (zip (documents results) (metadata results))))"
  by (simp add: execute_hits [OF assms])

theorem execute_formats_hits_witness:
  "fst (CourseSearchTool_execute
     \<lparr>store = store_returning
        \<lparr>documents = [''Test content'', ''More''],
         metadata = [\<lparr>meta_course_title = Some ''Test Course'', meta_lesson_number = Some 1,
                      meta_lesson_link = Some ''http://test.com/lesson1''\<rparr>,
                     \<lparr>meta_course_title = Some ''Other'', meta_lesson_number = None,
                      meta_lesson_link = None\<rparr>],
         error = None\<rparr>,
      last_sources = []\<rparr> (PStr ''q'') PNone PNone)
   = Inr (''[Test Course - Lesson 1]'' @ [newline] @ ''Test content'' @ [newline, newline]
          @ ''[Other]'' @ [newline] @ ''More'')"
  using execute_formats_hits [of
      "\<lparr>store = store_returning
        \<lparr>documents = [''Test content'', ''More''],
         metadata = [\<lparr>meta_course_title = Some ''Test Course'', meta_lesson_number = Some 1,
                      meta_lesson_link = Some ''http://test.com/lesson1''\<rparr>,
                     \<lparr>meta_course_title = Some ''Other'', meta_lesson_number = None,
                      meta_lesson_link = None\<rparr>],
         error = None\<rparr>,
      last_sources = []\<rparr>" "PStr ''q''" PNone PNone
      "\<lparr>documents = [''Test content'', ''More''],
         metadata = [\<lparr>meta_course_title = Some ''Test Course'', meta_lesson_number = Some 1,
                      meta_lesson_link = Some ''http://test.com/lesson1''\<rparr>,
                     \<lparr>meta_course_title = Some ''Other'', meta_lesson_number = None,
                      meta_lesson_link = None\<rparr>],
         error = None\<rparr>"]
  by (simp add: store_returning_def fixed_store_def hit_block_def hit_label_def
      str_int_def str_nat.simps digit_char_def)

text \<open>
  C4, at the failing input. An empty, error-free result for a search with the lesson
  filter \<open>0\<close>: the message does not name the lesson, since \<^verbatim>\<open>if lesson_number:\<close> is false
  for \<open>0\<close>. With the filter \<open>1\<close> the same call names the lesson.
\<close>

theorem execute_no_content_lesson_zero:
  "fst (CourseSearchTool_execute
     \<lparr>store = store_returning \<lparr>documents = [], metadata = [], error = None\<rparr>,
      last_sources = []\<rparr> (PStr ''q'') PNone (PInt 0))
     = Inr ''No relevant content found.''
   \<and> fst (CourseSearchTool_execute
     \<lparr>store = store_returning \<lparr>documents = [], metadata = [], error = None\<rparr>,
      last_sources = []\<rparr> (PStr ''q'') PNone (PInt 1))
     = Inr ''No relevant content found in lesson 1.''"
  by (simp add: CourseSearchTool_execute_def store_returning_def fixed_store_def
      if_truthy_def is_empty_def str_int_def str_nat.simps digit_char_def)

text \<open>
  C5, at the failing input. A tool that holds a source from an earlier search keeps it
  when the next search reports an error, and when the next search finds nothing: both
  paths return before \<^verbatim>\<open>last_sources\<close> is assigned.
\<close>

theorem execute_keeps_stale_sources:
  "last_sources (snd (CourseSearchTool_execute
     \<lparr>store = store_returning \<lparr>documents = [], metadata = [], error = Some ''Search failed''\<rparr>,
      last_sources = [\<lparr>source_text = ''Old Course - Lesson 1'', source_link = None\<rparr>]\<rparr>
     (PStr ''q'') PNone PNone))
     = [\<lparr>source_text = ''Old Course - Lesson 1'', source_link = None\<rparr>]
   \<and> last_sources (snd (CourseSearchTool_execute
     \<lparr>store = store_returning \<lparr>documents = [], metadata = [], error = None\<rparr>,
      last_sources = [\<lparr>source_text = ''Old Course - Lesson 1'', source_link = None\<rparr>]\<rparr>
     (PStr ''q'') PNone PNone))
     = [\<lparr>source_text = ''Old Course - Lesson 1'', source_link = None\<rparr>]"
  by (simp add: CourseSearchTool_execute_def store_returning_def fixed_store_def
      if_truthy_def is_empty_def)

section \<open>Properties of the tool manager\<close>

lemma last_sources_loop_none:
  "\<forall>t \<in> set ts. \<not> holds_sources t \<Longrightarrow> last_sources_loop ts = []"
  by (induction ts) (auto simp: holds_sources_def split: option.splits)

lemma last_sources_loop_first:
  assumes "\<forall>t \<in> set before. \<not> holds_sources t"
    and "tool_last_sources tool = Some srcs"
    and "srcs \<noteq> []"
  shows "last_sources_loop (before @ tool # after) = srcs"
  using assms by (induction before) (auto simp: holds_sources_def split: option.splits)

lemma list_all_update:
  "list_all P al \<Longrightarrow> P (k, v) \<Longrightarrow> list_all P (AList.update k v al)"
  by (induction al) auto

lemma count_definitions:
  assumes "distinct (map fst al)"
    and "list_all (\<lambda>(k, tool). name (get_tool_definition tool) = Some k) al"
  shows "length (filter (\<lambda>d. name d = Some n) (map (\<lambda>(k, tool). get_tool_definition tool) al))
           = (if n \<in> fst ` set al then 1 else 0)"
  using assms
proof (induction al)
  case Nil
  show ?case by simp
next
  case (Cons p al)
  obtain k tool where p: "p = (k, tool)" by (cases p)
  from Cons.prems have IH:
    "length (filter (\<lambda>d. name d = Some n) (map (\<lambda>(k, tool). get_tool_definition tool) al))
       = (if n \<in> fst ` set al then 1 else 0)"
    by (intro Cons.IH) simp_all
  from Cons.prems have k: "k \<notin> fst ` set al" and nm: "name (get_tool_definition tool) = Some k"
    by (simp_all add: p)
  show ?case
  proof (cases "n = k")
    case True
    with k IH nm show ?thesis by (simp add: p)
  next
    case False
    with IH nm show ?thesis by (simp add: p)
  qed
qed

lemma registry_ok_init: "registry_ok ToolManager_init"
  by (simp add: registry_ok_def ToolManager_init_def)

lemma registry_ok_register:
  assumes "registry_ok self" and "register_tool self tool = Inr self'"
  shows "registry_ok self'"
proof -
  from assms(2) obtain n where n: "name (get_tool_definition tool) = Some n"
    and self': "self' = self\<lparr>tools := AList.update n tool (tools self)\<rparr>"
    by (auto simp: register_tool_def Let_def if_truthy_def split: option.splits if_splits)
  from assms(1) show ?thesis
    unfolding self' registry_ok_def
    by (simp add: distinct_update list_all_update n)
qed

text \<open>
  After \<open>reset_sources\<close> every tool that has the attribute holds the empty list, the
  registry has the same names in the same order, and \<open>get_last_sources\<close> finds nothing.
\<close>

lemma clear_last_sources_cleared: "\<not> holds_sources (clear_last_sources t)"
  by (cases t) (auto simp: holds_sources_def split: option.splits)

lemma clear_last_sources_attr:
  "tool_last_sources (clear_last_sources t) = map_option (\<lambda>_. []) (tool_last_sources t)"
  by (cases t) (auto split: option.splits)

lemma reset_sources_clears:
  "map snd (tools (reset_sources self)) = map clear_last_sources (map snd (tools self))"
  "map fst (tools (reset_sources self)) = map fst (tools self)"
  "get_last_sources (reset_sources self) = []"
proof -
  show 1: "map snd (tools (reset_sources self)) = map clear_last_sources (map snd (tools self))"
    by (simp add: reset_sources_def split_def comp_def)
  show "map fst (tools (reset_sources self)) = map fst (tools self)"
    by (simp add: reset_sources_def split_def comp_def)
  show "get_last_sources (reset_sources self) = []"
    unfolding get_last_sources_def 1
    by (rule last_sources_loop_none) (auto simp: clear_last_sources_cleared)
qed

text \<open>
  C6. For a registered name, \<open>execute_tool\<close> returns what the tool stored under that
  name returns (or raises) on the same keyword arguments. For a name that is not in the
  registry it returns the string \<^verbatim>\<open>Tool '<name>' not found\<close>, raises nothing and leaves
  the manager as it was.
\<close>

theorem execute_tool_dispatch:
  "(map_of (tools self) tool_name = Some tool \<longrightarrow>
      fst (execute_tool self tool_name kw) = fst (tool_execute tool kw))
   \<and> (tool_name \<notin> fst ` set (tools self) \<longrightarrow>
      execute_tool self tool_name kw =
        (Inr (''Tool '' @ [apostrophe] @ tool_name @ [apostrophe] @ '' not found''), self))"
proof -
  have "map_of (tools self) tool_name = None" if "tool_name \<notin> fst ` set (tools self)"
    using that by (simp add: map_of_eq_None_iff)
  then show ?thesis
    by (auto simp: execute_tool_def split: prod.splits)
qed

theorem execute_tool_dispatch_witness:
  "fst (execute_tool \<lparr>tools = [(''test_tool'', stub_tool (Some ''test_tool'') ''Tool executed successfully'' None)]\<rparr>
          ''test_tool'' [(''param1'', PStr ''value1'')])
     = Inr ''Tool executed successfully''
   \<and> execute_tool \<lparr>tools = [(''test_tool'', stub_tool (Some ''test_tool'') ''Tool executed successfully'' None)]\<rparr>
          ''nonexistent_tool'' []
     = (Inr (''Tool '' @ [apostrophe] @ ''nonexistent_tool'' @ [apostrophe] @ '' not found''),
        \<lparr>tools = [(''test_tool'', stub_tool (Some ''test_tool'') ''Tool executed successfully'' None)]\<rparr>)"
  using execute_tool_dispatch [of
      "\<lparr>tools = [(''test_tool'', stub_tool (Some ''test_tool'') ''Tool executed successfully'' None)]\<rparr>"
      "''test_tool''" "stub_tool (Some ''test_tool'') ''Tool executed successfully'' None"
      "[(''param1'', PStr ''value1'')]"]
    execute_tool_dispatch [of
      "\<lparr>tools = [(''test_tool'', stub_tool (Some ''test_tool'') ''Tool executed successfully'' None)]\<rparr>"
      "''nonexistent_tool''" undefined "[]"]
  by (simp add: stub_tool_def)

text \<open>
  C7, as amended. \<open>get_last_sources\<close> returns the sources of the first registered
  tool, in registration order, that holds a non-empty \<^verbatim>\<open>last_sources\<close>, and the empty
  list when no registered tool holds any.
\<close>

theorem get_last_sources_first:
  "((\<forall>t \<in> snd ` set (tools self). \<not> holds_sources t) \<longrightarrow> get_last_sources self = [])
   \<and> (tools self = before @ (k, tool) # after
        \<and> (\<forall>t \<in> snd ` set before. \<not> holds_sources t)
        \<and> tool_last_sources tool = Some srcs \<and> srcs \<noteq> []
      \<longrightarrow> get_last_sources self = srcs)"
  by (auto simp: get_last_sources_def last_sources_loop_none last_sources_loop_first)

theorem get_last_sources_first_witness:
  "get_last_sources
     \<lparr>tools = [(''outline'', stub_tool (Some ''outline'') ''ok'' None),
               (''search_tool'', stub_tool (Some ''search_tool'') ''ok''
                  (Some [\<lparr>source_text = ''Test source'', source_link = Some ''http://test.com''\<rparr>]))]\<rparr>
     = [\<lparr>source_text = ''Test source'', source_link = Some ''http://test.com''\<rparr>]
   \<and> get_last_sources \<lparr>tools = [(''outline'', stub_tool (Some ''outline'') ''ok'' None)]\<rparr> = []"
  using get_last_sources_first [of
      "\<lparr>tools = [(''outline'', stub_tool (Some ''outline'') ''ok'' None),
               (''search_tool'', stub_tool (Some ''search_tool'') ''ok''
                  (Some [\<lparr>source_text = ''Test source'', source_link = Some ''http://test.com''\<rparr>]))]\<rparr>"
      "[(''outline'', stub_tool (Some ''outline'') ''ok'' None)]"
      "''search_tool''"
      "stub_tool (Some ''search_tool'') ''ok''
                  (Some [\<lparr>source_text = ''Test source'', source_link = Some ''http://test.com''\<rparr>])"
      "[]"
      "[\<lparr>source_text = ''Test source'', source_link = Some ''http://test.com''\<rparr>]"]
    get_last_sources_first [of
      "\<lparr>tools = [(''outline'', stub_tool (Some ''outline'') ''ok'' None)]\<rparr>"
      "[]" undefined undefined "[]" "[]"]
  by (simp add: stub_tool_def holds_sources_def)

text \<open>
  C7 as stated fails with two tools that both hold sources: the list returned is that
  of the first tool, and the source of the second is not in it.
\<close>

theorem get_last_sources_counterexample:
  "holds_sources (stub_tool (Some ''a'') ''ok'' (Some [\<lparr>source_text = ''A'', source_link = None\<rparr>]))
   \<and> holds_sources (stub_tool (Some ''b'') ''ok'' (Some [\<lparr>source_text = ''B'', source_link = None\<rparr>]))
   \<and> get_last_sources
        \<lparr>tools = [(''a'', stub_tool (Some ''a'') ''ok'' (Some [\<lparr>source_text = ''A'', source_link = None\<rparr>])),
                  (''b'', stub_tool (Some ''b'') ''ok'' (Some [\<lparr>source_text = ''B'', source_link = None\<rparr>]))]\<rparr>
       = [\<lparr>source_text = ''A'', source_link = None\<rparr>]
   \<and> \<lparr>source_text = ''B'', source_link = None\<rparr> \<notin> set (get_last_sources
        \<lparr>tools = [(''a'', stub_tool (Some ''a'') ''ok'' (Some [\<lparr>source_text = ''A'', source_link = None\<rparr>])),
                  (''b'', stub_tool (Some ''b'') ''ok'' (Some [\<lparr>source_text = ''B'', source_link = None\<rparr>]))]\<rparr>)"
  by (simp add: get_last_sources_def stub_tool_def holds_sources_def)

section \<open>Properties of the outline tool and of registration\<close>

lemma lesson_loop_eq: "lesson_loop ls outline_parts = outline_parts @ map lesson_line ls"
  by (induction ls arbitrary: outline_parts) (simp_all add: Let_def lesson_line_def)

lemma outline_try_found:
  assumes "course_catalog_get (outline_store self) [resolved] = Inr (Some (m # ms))"
    and "json_loads_lessons m = Inr lessons"
  shows "outline_try self resolved =
     Inr (join [newline]
       ([''Course: '' @ (case title m of None \<Rightarrow> ''Unknown Course'' | Some t \<Rightarrow> t)]
        @ (case if_truthy (course_link m) of None \<Rightarrow> [] | Some l \<Rightarrow> [''Course Link: '' @ l])
        @ (if lessons = [] then [[newline] @ ''No lessons found for this course.'']
           else ([newline] @ ''Lessons ('' @ str_nat (length lessons) @ '' total):'')
                  # map lesson_line (sort_key lesson_key lessons))))"
  using assms
  by (simp add: outline_try_def Let_def lesson_loop_eq split: option.split)

text \<open>
  C8, as amended. An exception raised by the store's search propagates from
  \<open>CourseSearchTool.execute\<close>, and one raised while the course name is resolved
  propagates from \<open>CourseOutlineTool.execute\<close>. An exception raised while the
  catalog metadata is fetched is caught by the outline tool, which returns the string
  \<^verbatim>\<open>Error retrieving course outline: <message>\<close> instead.
\<close>

theorem store_exceptions:
  "(search (store s) query course_name lesson_number = Inl e \<longrightarrow>
      CourseSearchTool_execute s query course_name lesson_number = (Inl e, s))
   \<and> (resolve_course_name (outline_store t) wanted = Inl e \<longrightarrow>
      CourseOutlineTool_execute t wanted = Inl e)
   \<and> (resolve_course_name (outline_store t) wanted = Inr (Some resolved) \<and> resolved \<noteq> []
        \<and> course_catalog_get (outline_store t) [resolved] = Inl e \<longrightarrow>
      CourseOutlineTool_execute t wanted
        = Inr (''Error retrieving course outline: '' @ exn_str e))"
  by (simp add: CourseSearchTool_execute_def CourseOutlineTool_execute_def outline_try_def
      if_truthy_def)

theorem store_exceptions_witness:
  "CourseSearchTool_execute
     \<lparr>store = fixed_store (Inl (Exception ''connection lost'')) (Inr None) (Inr None),
      last_sources = []\<rparr> (PStr ''q'') PNone PNone
     = (Inl (Exception ''connection lost''),
        \<lparr>store = fixed_store (Inl (Exception ''connection lost'')) (Inr None) (Inr None),
         last_sources = []\<rparr>)
   \<and> CourseOutlineTool_execute
       \<lparr>outline_store = fixed_store (Inl (Exception ''connection lost''))
          (Inl (Exception ''connection lost'')) (Inr None)\<rparr> (PStr ''Python'')
     = Inl (Exception ''connection lost'')
   \<and> CourseOutlineTool_execute
       \<lparr>outline_store = fixed_store (Inl (Exception ''connection lost''))
          (Inr (Some ''Python Course'')) (Inl (Exception ''connection lost''))\<rparr> (PStr ''Python'')
     = Inr ''Error retrieving course outline: connection lost''"
  using store_exceptions [of
      "\<lparr>store = fixed_store (Inl (Exception ''connection lost'')) (Inr None) (Inr None),
        last_sources = []\<rparr>" "PStr ''q''" PNone PNone "Exception ''connection lost''"
      "\<lparr>outline_store = fixed_store (Inl (Exception ''connection lost''))
          (Inl (Exception ''connection lost'')) (Inr None)\<rparr>" "PStr ''Python''" undefined]
    store_exceptions [of
      "\<lparr>store = fixed_store (Inl (Exception ''connection lost'')) (Inr None) (Inr None),
        last_sources = []\<rparr>" "PStr ''q''" PNone PNone "Exception ''connection lost''"
      "\<lparr>outline_store = fixed_store (Inl (Exception ''connection lost''))
          (Inr (Some ''Python Course'')) (Inl (Exception ''connection lost''))\<rparr>"
      "PStr ''Python''" "''Python Course''"]
  by (simp add: fixed_store_def)

text \<open>
  C8 as stated fails for the outline tool: the catalog raises, and the call returns a
  string and raises nothing.
\<close>

theorem outline_catches_counterexample:
  "course_catalog_get
     (fixed_store (Inl (Exception ''connection lost'')) (Inr (Some ''Python Course''))
        (Inl (Exception ''connection lost''))) [''Python Course'']
     = Inl (Exception ''connection lost'')
   \<and> CourseOutlineTool_execute
       \<lparr>outline_store = fixed_store (Inl (Exception ''connection lost''))
          (Inr (Some ''Python Course'')) (Inl (Exception ''connection lost''))\<rparr> (PStr ''Python'')
     = Inr ''Error retrieving course outline: connection lost''"
  by (simp add: CourseOutlineTool_execute_def outline_try_def fixed_store_def if_truthy_def)

text \<open>
  C9, as amended. When the store resolves the course name to a title, the catalog holds
  metadata for it and the \<^verbatim>\<open>lessons_json\<close> entry of the metadata decodes to a list of
  lessons, \<open>execute\<close> returns the outline: the parts below joined by newlines. The
  first part is \<^verbatim>\<open>Course: <title>\<close>, with the title entry of the metadata; a part
  \<^verbatim>\<open>Course Link: <link>\<close> follows exactly when the metadata has a non-empty link;
  then come the lessons, each on its own line as \<^verbatim>\<open>Lesson <number>: <title>\<close>
  (indented by two blanks, under a heading that counts them), in ascending order of
  lesson number. When the name does not resolve, \<open>execute\<close> returns
  \<^verbatim>\<open>No course found matching '<course_name>'\<close>.
\<close>

theorem outline_shape:
  "(resolve_course_name (outline_store self) course_name = Inr (Some resolved) \<and> resolved \<noteq> []
      \<and> course_catalog_get (outline_store self) [resolved] = Inr (Some (m # ms))
      \<and> json_loads_lessons m = Inr lessons \<longrightarrow>
    (\<exists>ordered. mset ordered = mset lessons \<and> sorted (map lesson_key ordered)
       \<and> CourseOutlineTool_execute self course_name =
           Inr (join [newline]
             ([''Course: '' @ (case title m of None \<Rightarrow> ''Unknown Course'' | Some t \<Rightarrow> t)]
              @ (case course_link m of
                   None \<Rightarrow> []
                 | Some l \<Rightarrow> if l \<noteq> [] then [''Course Link: '' @ l] else [])
              @ (if lessons = [] then [[newline] @ ''No lessons found for this course.'']
                 else ([newline] @ ''Lessons ('' @ str_nat (length lessons) @ '' total):'')
                        # map lesson_line ordered)))))
   \<and> (resolve_course_name (outline_store self) course_name = Inr unresolved
        \<and> (unresolved = None \<or> unresolved = Some []) \<longrightarrow>
      CourseOutlineTool_execute self course_name
        = Inr (''No course found matching '' @ [apostrophe] @ py_str course_name @ [apostrophe]))"
proof (intro conjI impI)
  assume a: "resolve_course_name (outline_store self) course_name = Inr (Some resolved)
      \<and> resolved \<noteq> []
      \<and> course_catalog_get (outline_store self) [resolved] = Inr (Some (m # ms))
      \<and> json_loads_lessons m = Inr lessons"
  let ?ordered = "sort_key lesson_key lessons"
  have "mset ?ordered = mset lessons" by simp
  moreover have "sorted (map lesson_key ?ordered)" by (rule sorted_sort_key)
  moreover have "CourseOutlineTool_execute self course_name =
           Inr (join [newline]
             ([''Course: '' @ (case title m of None \<Rightarrow> ''Unknown Course'' | Some t \<Rightarrow> t)]
              @ (case course_link m of
                   None \<Rightarrow> []
                 | Some l \<Rightarrow> if l \<noteq> [] then [''Course Link: '' @ l] else [])
              @ (if lessons = [] then [[newline] @ ''No lessons found for this course.'']
                 else ([newline] @ ''Lessons ('' @ str_nat (length lessons) @ '' total):'')
                        # map lesson_line ?ordered)))"
    using a
    by (simp add: CourseOutlineTool_execute_def outline_try_found [of self resolved m ms lessons]
        if_truthy_def split: option.split)
  ultimately show "\<exists>ordered. mset ordered = mset lessons \<and> sorted (map lesson_key ordered)
       \<and> CourseOutlineTool_execute self course_name =
           Inr (join [newline]
             ([''Course: '' @ (case title m of None \<Rightarrow> ''Unknown Course'' | Some t \<Rightarrow> t)]
              @ (case course_link m of
                   None \<Rightarrow> []
                 | Some l \<Rightarrow> if l \<noteq> [] then [''Course Link: '' @ l] else [])
              @ (if lessons = [] then [[newline] @ ''No lessons found for this course.'']
                 else ([newline] @ ''Lessons ('' @ str_nat (length lessons) @ '' total):'')
                        # map lesson_line ordered)))"
    by blast
next
  assume "resolve_course_name (outline_store self) course_name = Inr unresolved
        \<and> (unresolved = None \<or> unresolved = Some [])"
  then show "CourseOutlineTool_execute self course_name
        = Inr (''No course found matching '' @ [apostrophe] @ py_str course_name @ [apostrophe])"
    by (auto simp: CourseOutlineTool_execute_def if_truthy_def)
qed

theorem outline_shape_witness:
  "CourseOutlineTool_execute
     \<lparr>outline_store = fixed_store (Inl (Exception ''unused'')) (Inr (Some ''Python Course''))
        (Inr (Some [\<lparr>title = Some ''Python Course'', course_link = Some ''http://test.com'',
                      lessons_json = Some (Inr [\<lparr>number = Some 2, lesson_title = Some ''Loops''\<rparr>,
                                                \<lparr>number = Some 1, lesson_title = Some ''Basics''\<rparr>])\<rparr>]))\<rparr>
     (PStr ''Python'')
     = Inr (''Course: Python Course'' @ [newline] @ ''Course Link: http://test.com'' @ [newline]
            @ [newline] @ ''Lessons (2 total):'' @ [newline]
            @ ''  Lesson 1: Basics'' @ [newline] @ ''  Lesson 2: Loops'')
   \<and> CourseOutlineTool_execute
       \<lparr>outline_store = fixed_store (Inl (Exception ''unused'')) (Inr None) (Inr None)\<rparr>
       (PStr ''Cooking'')
     = Inr (''No course found matching '' @ [apostrophe] @ ''Cooking'' @ [apostrophe])"
proof -
  let ?l1 = "\<lparr>number = Some 1, lesson_title = Some ''Basics''\<rparr>"
  let ?l2 = "\<lparr>number = Some 2, lesson_title = Some ''Loops''\<rparr>"
  let ?m = "\<lparr>title = Some ''Python Course'', course_link = Some ''http://test.com'',
             lessons_json = Some (Inr [?l2, ?l1])\<rparr>"
  let ?t = "\<lparr>outline_store = fixed_store (Inl (Exception ''unused''))
              (Inr (Some ''Python Course'')) (Inr (Some [?m]))\<rparr>"
  let ?u = "\<lparr>outline_store = fixed_store (Inl (Exception ''unused'')) (Inr None) (Inr None)\<rparr>"
  from outline_shape [of ?t "PStr ''Python''" "''Python Course''" ?m "[]" "[?l2, ?l1]"]
  obtain ordered where perm: "mset ordered = mset [?l2, ?l1]"
    and sorted: "sorted (map lesson_key ordered)"
    and out: "CourseOutlineTool_execute ?t (PStr ''Python'') =
      Inr (join [newline]
        ([''Course: Python Course'', ''Course Link: http://test.com'',
          [newline] @ ''Lessons ('' @ str_nat (length [?l2, ?l1]) @ '' total):'']
         @ map lesson_line ordered))"
    by (auto simp: fixed_store_def json_loads_lessons_def)
  from perm have "length ordered = length [?l2, ?l1]"
    by (rule mset_eq_length)
  then have "length ordered = 2"
    by simp
  then obtain a b where ab: "ordered = [a, b]"
    by (auto simp: length_Suc_conv numeral_2_eq_2)
  from perm have "(a = ?l2 \<and> b = ?l1) \<or> (a = ?l1 \<and> b = ?l2)"
    unfolding ab by (auto simp: add_eq_conv_ex)
  with sorted have "ordered = [?l1, ?l2]"
    unfolding ab by (auto simp: lesson_key_def)
  with out have first: "CourseOutlineTool_execute ?t (PStr ''Python'')
     = Inr (''Course: Python Course'' @ [newline] @ ''Course Link: http://test.com'' @ [newline]
            @ [newline] @ ''Lessons (2 total):'' @ [newline]
            @ ''  Lesson 1: Basics'' @ [newline] @ ''  Lesson 2: Loops'')"
    by (simp add: lesson_line_def str_int_def str_nat.simps digit_char_def)
  from outline_shape [of ?u "PStr ''Cooking''" undefined undefined undefined undefined None]
  have second: "CourseOutlineTool_execute ?u (PStr ''Cooking'')
     = Inr (''No course found matching '' @ [apostrophe] @ ''Cooking'' @ [apostrophe])"
    by (simp add: fixed_store_def)
  from first second show ?thesis by blast
qed

text \<open>
  C9 as stated fails when the name resolves and the catalog holds metadata whose
  \<^verbatim>\<open>lessons_json\<close> entry does not decode: \<^verbatim>\<open>json.loads\<close> raises inside the
  \<^verbatim>\<open>try\<close> block, and the call returns the error string, not an outline.
\<close>

theorem outline_undecodable_counterexample:
  "resolve_course_name
     (fixed_store (Inl (Exception ''unused'')) (Inr (Some ''Python Course''))
        (Inr (Some [\<lparr>title = Some ''Python Course'', course_link = None,
                      lessons_json = Some (Inl (Exception ''Expecting value''))\<rparr>])))
     (PStr ''Python'') = Inr (Some ''Python Course'')
   \<and> course_catalog_get
     (fixed_store (Inl (Exception ''unused'')) (Inr (Some ''Python Course''))
        (Inr (Some [\<lparr>title = Some ''Python Course'', course_link = None,
                      lessons_json = Some (Inl (Exception ''Expecting value''))\<rparr>])))
     [''Python Course'']
     = Inr (Some [\<lparr>title = Some ''Python Course'', course_link = None,
                    lessons_json = Some (Inl (Exception ''Expecting value''))\<rparr>])
   \<and> CourseOutlineTool_execute
       \<lparr>outline_store = fixed_store (Inl (Exception ''unused'')) (Inr (Some ''Python Course''))
          (Inr (Some [\<lparr>title = Some ''Python Course'', course_link = None,
                        lessons_json = Some (Inl (Exception ''Expecting value''))\<rparr>]))\<rparr>
       (PStr ''Python'')
     = Inr ''Error retrieving course outline: Expecting value''"
  by (simp add: CourseOutlineTool_execute_def outline_try_def fixed_store_def if_truthy_def
      json_loads_lessons_def)

text \<open>
  C10. Registering a tool under a name that is already registered replaces the earlier
  tool without an error and without a new entry: \<open>execute_tool\<close> with that name then
  runs the new tool, and \<open>get_tool_definitions\<close> holds one definition with that name.
  \<open>register_tool\<close> raises exactly when the definition has no name (the entry is
  missing or empty), and what it raises is the \<^verbatim>\<open>ValueError\<close>.
\<close>

theorem register_tool_replaces:
  "(registry_ok self \<and> tool_name \<in> fst ` set (tools self)
      \<and> name (get_tool_definition tool) = Some tool_name \<and> tool_name \<noteq> [] \<longrightarrow>
    (\<exists>self'. register_tool self tool = Inr self'
       \<and> map fst (tools self') = map fst (tools self)
       \<and> (\<forall>kw. fst (execute_tool self' tool_name kw) = fst (tool_execute tool kw))
       \<and> length (filter (\<lambda>d. name d = Some tool_name) (get_tool_definitions self')) = 1))
   \<and> ((\<exists>e. register_tool self tool = Inl e)
        = (name (get_tool_definition tool) = None \<or> name (get_tool_definition tool) = Some []))
   \<and> (\<forall>e. register_tool self tool = Inl e \<longrightarrow>
        e = ValueError (''Tool must have a '' @ [apostrophe] @ ''name'' @ [apostrophe]
                          @ '' in its definition''))"
proof (intro conjI impI allI)
  assume a: "registry_ok self \<and> tool_name \<in> fst ` set (tools self)
      \<and> name (get_tool_definition tool) = Some tool_name \<and> tool_name \<noteq> []"
  let ?self' = "self\<lparr>tools := AList.update tool_name tool (tools self)\<rparr>"
  from a have reg: "register_tool self tool = Inr ?self'"
    by (simp add: register_tool_def if_truthy_def)
  from a have ok: "registry_ok ?self'"
    using registry_ok_register [OF _ reg] by simp
  from a have keys: "map fst (tools ?self') = map fst (tools self)"
    by (simp add: update_keys)
  have run: "fst (execute_tool ?self' tool_name kw) = fst (tool_execute tool kw)" for kw
    by (simp add: execute_tool_def update_conv' split: prod.split)
  let ?al = "AList.update tool_name tool (tools self)"
  from ok have d: "distinct (map fst ?al)"
    and l: "list_all (\<lambda>(k, tool). name (get_tool_definition tool) = Some k) ?al"
    by (simp_all add: registry_ok_def)
  have "tool_name \<in> fst ` set ?al"
    by (simp add: dom_update)
  with count_definitions [OF d l, of tool_name] have one:
    "length (filter (\<lambda>d. name d = Some tool_name) (get_tool_definitions ?self')) = 1"
    by (simp add: get_tool_definitions_def del: filter_map)
  from reg keys run one
  show "\<exists>self'. register_tool self tool = Inr self'
       \<and> map fst (tools self') = map fst (tools self)
       \<and> (\<forall>kw. fst (execute_tool self' tool_name kw) = fst (tool_execute tool kw))
       \<and> length (filter (\<lambda>d. name d = Some tool_name) (get_tool_definitions self')) = 1"
    by blast
next
  show "(\<exists>e. register_tool self tool = Inl e)
        = (name (get_tool_definition tool) = None \<or> name (get_tool_definition tool) = Some [])"
    by (auto simp: register_tool_def if_truthy_def split: option.splits)
next
  fix e
  assume "register_tool self tool = Inl e"
  then show "e = ValueError (''Tool must have a '' @ [apostrophe] @ ''name'' @ [apostrophe]
                          @ '' in its definition'')"
    by (auto simp: register_tool_def Let_def split: option.splits)
qed

theorem register_tool_replaces_witness:
  "(\<exists>self'. register_tool \<lparr>tools = [(''test_tool'', stub_tool (Some ''test_tool'') ''first'' None)]\<rparr>
               (stub_tool (Some ''test_tool'') ''second'' None) = Inr self'
      \<and> map fst (tools self') = [''test_tool'']
      \<and> fst (execute_tool self' ''test_tool'' []) = Inr ''second''
      \<and> length (filter (\<lambda>d. name d = Some ''test_tool'') (get_tool_definitions self')) = 1)
   \<and> register_tool \<lparr>tools = [(''test_tool'', stub_tool (Some ''test_tool'') ''first'' None)]\<rparr>
        (stub_tool None ''third'' None)
     = Inl (ValueError (''Tool must have a '' @ [apostrophe] @ ''name'' @ [apostrophe]
                          @ '' in its definition''))"
proof -
  let ?self = "\<lparr>tools = [(''test_tool'', stub_tool (Some ''test_tool'') ''first'' None)]\<rparr>"
  let ?tool = "stub_tool (Some ''test_tool'') ''second'' None"
  have ok: "registry_ok ?self"
    by (simp add: registry_ok_def stub_tool_def)
  from register_tool_replaces [of ?self "''test_tool''" ?tool] ok
  obtain self' where "register_tool ?self ?tool = Inr self'"
    and "map fst (tools self') = [''test_tool'']"
    and "\<forall>kw. fst (execute_tool self' ''test_tool'' kw) = fst (tool_execute ?tool kw)"
    and "length (filter (\<lambda>d. name d = Some ''test_tool'') (get_tool_definitions self')) = 1"
    by (auto simp: stub_tool_def)
  then have first: "\<exists>self'. register_tool ?self ?tool = Inr self'
      \<and> map fst (tools self') = [''test_tool'']
      \<and> fst (execute_tool self' ''test_tool'' []) = Inr ''second''
      \<and> length (filter (\<lambda>d. name d = Some ''test_tool'') (get_tool_definitions self')) = 1"
    by (auto simp: stub_tool_def)
  from register_tool_replaces [of ?self undefined "stub_tool None ''third'' None"]
  have second: "register_tool ?self (stub_tool None ''third'' None)
     = Inl (ValueError (''Tool must have a '' @ [apostrophe] @ ''name'' @ [apostrophe]
                          @ '' in its definition''))"
    by (auto simp: stub_tool_def)
  from first second show ?thesis by blast
qed

end
